theory Spec2Isabelle
  imports Main
begin

section \<open>The CSS selector builder of objects-tasks.js\<close>

text \<open>
  The builder is the class \<^verbatim>\<open>CSSSelector\<close> together with the object
  \<^verbatim>\<open>cssSelectorBuilder\<close>. Fragment values and combinators are JavaScript strings,
  modelled as \<^typ>\<open>string\<close>; the slots \<^verbatim>\<open>parts.element\<close> and \<^verbatim>\<open>parts.id\<close> start as
  \<^verbatim>\<open>null\<close>, modelled as \<^const>\<open>None\<close>. Every method runs on the instance
  \<^verbatim>\<open>this\<close> and returns an outcome together with the instance as the call leaves
  it, so that the state after a \<^verbatim>\<open>throw\<close> is part of the model.
\<close>

subsection \<open>Data\<close>

record parts =
  element :: "string option"
  id' :: "string option"
  classes :: "string list"
  attributes :: "string list"
  pseudoClasses :: "string list"
  pseudoElements :: "string list"

text \<open>The keys of \<^verbatim>\<open>orderMap\<close>, which are also the entries of \<^verbatim>\<open>this.order\<close>.\<close>

datatype part =
  Key_element | Key_id | Key_classes | Key_attributes | Key_pseudoClasses | Key_pseudoElements

record CSSSelector =
  parts :: parts
  order :: "part list"

text \<open>
  The two \<^verbatim>\<open>Error\<close> objects the class throws, told apart by their message:
  \<^verbatim>\<open>'Element, id and pseudo-element should not occur more then one time inside the selector'\<close>
  is \<open>DuplicateFragmentError\<close>, and
  \<^verbatim>\<open>'Selector parts should be arranged in the following order: ...'\<close>
  is \<open>OrderError\<close>.
\<close>

datatype error = DuplicateFragmentError | OrderError

type_synonym 'a outcome = "(error + 'a) \<times> CSSSelector"

text \<open>The constructor.\<close>

definition new_CSSSelector :: CSSSelector where
  "new_CSSSelector =
     \<lparr> parts = \<lparr> element = None, id' = None, classes = [], attributes = [],
                 pseudoClasses = [], pseudoElements = [] \<rparr>,
       order = [] \<rparr>"

text \<open>
  JavaScript truthiness of a slot that holds \<^verbatim>\<open>null\<close> or a string: \<^verbatim>\<open>null\<close> and
  the empty string are falsy, every other string is truthy.
\<close>

fun truthy :: "string option \<Rightarrow> bool" where
  "truthy None = False"
| "truthy (Some v) = (v \<noteq> [])"

subsection \<open>Methods of the class\<close>

fun orderMap :: "part \<Rightarrow> nat" where
  "orderMap Key_element = 1"
| "orderMap Key_id = 2"
| "orderMap Key_classes = 3"
| "orderMap Key_attributes = 4"
| "orderMap Key_pseudoClasses = 5"
| "orderMap Key_pseudoElements = 6"

definition checkOrder :: "part \<Rightarrow> CSSSelector \<Rightarrow> unit outcome" where
  "checkOrder part this =
     (if 0 < length (order this) \<and>
         orderMap part < orderMap (order this ! (length (order this) - 1))
      then (Inl OrderError, this)
      else (Inr (), this\<lparr>order := order this @ [part]\<rparr>))"

definition CSSSelector_element :: "string \<Rightarrow> CSSSelector \<Rightarrow> unit outcome" where
  "CSSSelector_element v this =
     (if truthy (element (parts this)) then (Inl DuplicateFragmentError, this)
      else case checkOrder Key_element this of
             (Inl e, this') \<Rightarrow> (Inl e, this')
           | (Inr _, this') \<Rightarrow> (Inr (), this'\<lparr>parts := (parts this')\<lparr>element := Some v\<rparr>\<rparr>))"

definition CSSSelector_id :: "string \<Rightarrow> CSSSelector \<Rightarrow> unit outcome" where
  "CSSSelector_id v this =
     (if truthy (id' (parts this)) then (Inl DuplicateFragmentError, this)
      else case checkOrder Key_id this of
             (Inl e, this') \<Rightarrow> (Inl e, this')
           | (Inr _, this') \<Rightarrow> (Inr (), this'\<lparr>parts := (parts this')\<lparr>id' := Some v\<rparr>\<rparr>))"

definition CSSSelector_class :: "string \<Rightarrow> CSSSelector \<Rightarrow> unit outcome" where
  "CSSSelector_class v this =
     (case checkOrder Key_classes this of
        (Inl e, this') \<Rightarrow> (Inl e, this')
      | (Inr _, this') \<Rightarrow>
          (Inr (), this'\<lparr>parts := (parts this')\<lparr>classes := classes (parts this') @ [v]\<rparr>\<rparr>))"

definition CSSSelector_attr :: "string \<Rightarrow> CSSSelector \<Rightarrow> unit outcome" where
  "CSSSelector_attr v this =
     (case checkOrder Key_attributes this of
        (Inl e, this') \<Rightarrow> (Inl e, this')
      | (Inr _, this') \<Rightarrow>
          (Inr (), this'\<lparr>parts := (parts this')\<lparr>attributes := attributes (parts this') @ [v]\<rparr>\<rparr>))"

definition CSSSelector_pseudoClass :: "string \<Rightarrow> CSSSelector \<Rightarrow> unit outcome" where
  "CSSSelector_pseudoClass v this =
     (case checkOrder Key_pseudoClasses this of
        (Inl e, this') \<Rightarrow> (Inl e, this')
      | (Inr _, this') \<Rightarrow>
          (Inr (), this'\<lparr>parts := (parts this')
                            \<lparr>pseudoClasses := pseudoClasses (parts this') @ [v]\<rparr>\<rparr>))"

definition CSSSelector_pseudoElement :: "string \<Rightarrow> CSSSelector \<Rightarrow> unit outcome" where
  "CSSSelector_pseudoElement v this =
     (if 0 < length (pseudoElements (parts this)) then (Inl DuplicateFragmentError, this)
      else case checkOrder Key_pseudoElements this of
             (Inl e, this') \<Rightarrow> (Inl e, this')
           | (Inr _, this') \<Rightarrow>
               (Inr (), this'\<lparr>parts := (parts this')
                                 \<lparr>pseudoElements := pseudoElements (parts this') @ [v]\<rparr>\<rparr>))"

text \<open>
  \<^verbatim>\<open>stringify\<close> fills a local array and joins it with the empty separator; it
  never assigns to \<^verbatim>\<open>this\<close>. The tests \<^verbatim>\<open>if (this.parts.element)\<close> and
  \<^verbatim>\<open>if (this.parts.id)\<close> are truthiness tests: they pass for a non-empty string
  only.
\<close>

definition stringify :: "CSSSelector \<Rightarrow> string \<times> CSSSelector" where
  "stringify this =
     (let ps0 = [];
          ps1 = (case element (parts this) of
                   None \<Rightarrow> ps0
                 | Some e \<Rightarrow> if e \<noteq> [] then ps0 @ [e] else ps0);
          ps2 = (case id' (parts this) of
                   None \<Rightarrow> ps1
                 | Some i \<Rightarrow> if i \<noteq> [] then ps1 @ [''#'' @ i] else ps1);
          ps3 = ps2 @ map (\<lambda>className. ''.'' @ className) (classes (parts this));
          ps4 = ps3 @ map (\<lambda>attribute. ''['' @ attribute @ '']'') (attributes (parts this));
          ps5 = ps4 @ map (\<lambda>pseudoClass. '':'' @ pseudoClass) (pseudoClasses (parts this));
          ps6 = ps5 @ map (\<lambda>pseudoElement. ''::'' @ pseudoElement) (pseudoElements (parts this))
      in (concat ps6, this))"

subsection \<open>The factory object\<close>

definition cssSelectorBuilder_element :: "string \<Rightarrow> unit outcome" where
  "cssSelectorBuilder_element v = CSSSelector_element v new_CSSSelector"

definition cssSelectorBuilder_id :: "string \<Rightarrow> unit outcome" where
  "cssSelectorBuilder_id v = CSSSelector_id v new_CSSSelector"

definition cssSelectorBuilder_class :: "string \<Rightarrow> unit outcome" where
  "cssSelectorBuilder_class v = CSSSelector_class v new_CSSSelector"

definition cssSelectorBuilder_attr :: "string \<Rightarrow> unit outcome" where
  "cssSelectorBuilder_attr v = CSSSelector_attr v new_CSSSelector"

definition cssSelectorBuilder_pseudoClass :: "string \<Rightarrow> unit outcome" where
  "cssSelectorBuilder_pseudoClass v = CSSSelector_pseudoClass v new_CSSSelector"

definition cssSelectorBuilder_pseudoElement :: "string \<Rightarrow> unit outcome" where
  "cssSelectorBuilder_pseudoElement v = CSSSelector_pseudoElement v new_CSSSelector"

text \<open>
  \<^verbatim>\<open>combine\<close> builds a new instance and assigns the joined text to its element
  slot directly, without calling the \<^verbatim>\<open>element\<close> method. The result is the new
  instance; the two arguments are only read.
\<close>

definition cssSelectorBuilder_combine :: "CSSSelector \<Rightarrow> string \<Rightarrow> CSSSelector \<Rightarrow> CSSSelector" where
  "cssSelectorBuilder_combine selector1 combinator selector2 =
     (let combined = new_CSSSelector
      in combined\<lparr>parts := (parts combined)
           \<lparr>element := Some (fst (stringify selector1) @ '' '' @ combinator @ '' '' @
                             fst (stringify selector2))\<rparr>\<rparr>)"

subsection \<open>Chains of calls\<close>

text \<open>
  One call of an append method, as a value, so that statements can range over all
  chains. \<open>invoke\<close> dispatches to the method; \<open>run\<close> is a chain
  \<^verbatim>\<open>b.m1(v1).m2(v2)...\<close>, which stops at the first call that throws;
  \<open>attempts\<close> is a caller that makes every call in turn on the same instance and
  catches whatever is thrown.
\<close>

datatype call =
    CallElement string
  | CallId string
  | CallClass string
  | CallAttr string
  | CallPseudoClass string
  | CallPseudoElement string

fun invoke :: "call \<Rightarrow> CSSSelector \<Rightarrow> unit outcome" where
  "invoke (CallElement v) this = CSSSelector_element v this"
| "invoke (CallId v) this = CSSSelector_id v this"
| "invoke (CallClass v) this = CSSSelector_class v this"
| "invoke (CallAttr v) this = CSSSelector_attr v this"
| "invoke (CallPseudoClass v) this = CSSSelector_pseudoClass v this"
| "invoke (CallPseudoElement v) this = CSSSelector_pseudoElement v this"

fun run :: "call list \<Rightarrow> CSSSelector \<Rightarrow> unit outcome" where
  "run [] this = (Inr (), this)"
| "run (c # cs) this =
     (case invoke c this of
        (Inl e, this') \<Rightarrow> (Inl e, this')
      | (Inr _, this') \<Rightarrow> run cs this')"

fun attempts :: "call list \<Rightarrow> CSSSelector \<Rightarrow> CSSSelector" where
  "attempts [] this = this"
| "attempts (c # cs) this = attempts cs (snd (invoke c this))"

text \<open>The category of a call and the text the specification gives its fragment.\<close>

fun category :: "call \<Rightarrow> part" where
  "category (CallElement v) = Key_element"
| "category (CallId v) = Key_id"
| "category (CallClass v) = Key_classes"
| "category (CallAttr v) = Key_attributes"
| "category (CallPseudoClass v) = Key_pseudoClasses"
| "category (CallPseudoElement v) = Key_pseudoElements"

fun fragment :: "call \<Rightarrow> string" where
  "fragment (CallElement v) = v"
| "fragment (CallId v) = ''#'' @ v"
| "fragment (CallClass v) = ''.'' @ v"
| "fragment (CallAttr v) = ''['' @ v @ '']''"
| "fragment (CallPseudoClass v) = '':'' @ v"
| "fragment (CallPseudoElement v) = ''::'' @ v"

text \<open>
  The rendering as the specification words it: for each category in the fixed order
  1 to 6, the fragments of that category in append order, all concatenated with no
  separator.
\<close>

definition fragments_of :: "part \<Rightarrow> call list \<Rightarrow> string" where
  "fragments_of k cs = concat (map fragment (filter (\<lambda>c. category c = k) cs))"

definition render_spec :: "call list \<Rightarrow> string" where
  "render_spec cs =
     concat (map (\<lambda>k. fragments_of k cs)
                 [Key_element, Key_id, Key_classes, Key_attributes, Key_pseudoClasses,
                  Key_pseudoElements])"

text \<open>
  What \<^verbatim>\<open>stringify\<close> writes for one category of a stored state: the pushes of
  that category, joined.
\<close>

fun text_of :: "part \<Rightarrow> CSSSelector \<Rightarrow> string" where
  "text_of Key_element s = (case element (parts s) of None \<Rightarrow> [] | Some e \<Rightarrow> e)"
| "text_of Key_id s = (case id' (parts s) of None \<Rightarrow> [] | Some i \<Rightarrow> if i \<noteq> [] then ''#'' @ i else [])"
| "text_of Key_classes s = concat (map (\<lambda>v. ''.'' @ v) (classes (parts s)))"
| "text_of Key_attributes s = concat (map (\<lambda>v. ''['' @ v @ '']'') (attributes (parts s)))"
| "text_of Key_pseudoClasses s = concat (map (\<lambda>v. '':'' @ v) (pseudoClasses (parts s)))"
| "text_of Key_pseudoElements s = concat (map (\<lambda>v. ''::'' @ v) (pseudoElements (parts s)))"

section \<open>Basic facts\<close>

lemmas method_defs =
  CSSSelector_element_def CSSSelector_id_def CSSSelector_class_def
  CSSSelector_attr_def CSSSelector_pseudoClass_def CSSSelector_pseudoElement_def

lemmas eval_defs =
  method_defs checkOrder_def new_CSSSelector_def stringify_def Let_def
  cssSelectorBuilder_element_def cssSelectorBuilder_id_def
  cssSelectorBuilder_class_def cssSelectorBuilder_attr_def
  cssSelectorBuilder_pseudoClass_def cssSelectorBuilder_pseudoElement_def
  cssSelectorBuilder_combine_def render_spec_def fragments_of_def

lemma checkOrder_new: "checkOrder p new_CSSSelector = (Inr (), new_CSSSelector\<lparr>order := [p]\<rparr>)"
  by (simp add: checkOrder_def new_CSSSelector_def)

lemma checkOrder_error_state: "fst (checkOrder p s) = Inl e \<Longrightarrow> snd (checkOrder p s) = s"
  by (simp add: checkOrder_def split: if_splits)

lemma invoke_error_state: "fst (invoke c s) = Inl e \<Longrightarrow> snd (invoke c s) = s"
  by (cases c)
     (auto simp: CSSSelector_element_def CSSSelector_id_def CSSSelector_class_def
        CSSSelector_attr_def CSSSelector_pseudoClass_def CSSSelector_pseudoElement_def
        checkOrder_def split: if_splits)

subsection \<open>Rendering, category by category\<close>

lemma stringify_text:
  "fst (stringify s) =
     text_of Key_element s @ text_of Key_id s @ text_of Key_classes s @ text_of Key_attributes s @
     text_of Key_pseudoClasses s @ text_of Key_pseudoElements s"
proof -
  have one: "\<And>c::char. (@) [c] = (#) c" by (rule ext) simp
  have two: "\<And>c d::char. (@) [c, d] = (\<lambda>v. c # d # v)" by (rule ext) simp
  show ?thesis
    by (simp add: stringify_def Let_def one two split: option.splits)
qed

lemma stringify_state: "snd (stringify s) = s"
  by (simp add: stringify_def Let_def)

lemma render_spec_unfold:
  "render_spec cs =
     fragments_of Key_element cs @ fragments_of Key_id cs @ fragments_of Key_classes cs @
     fragments_of Key_attributes cs @ fragments_of Key_pseudoClasses cs @ fragments_of Key_pseudoElements cs"
  by (simp add: render_spec_def)

lemma truthy_text_Element: "\<not> truthy (element (parts s)) \<Longrightarrow> text_of Key_element s = []"
  by (cases "element (parts s)") auto

lemma truthy_text_Id: "\<not> truthy (id' (parts s)) \<Longrightarrow> text_of Key_id s = []"
  by (cases "id' (parts s)") auto

lemma invoke_text:
  assumes "fst (invoke c s) = Inr ()" and "c \<noteq> CallId []"
  shows "text_of k (snd (invoke c s)) = text_of k s @ (if category c = k then fragment c else [])"
proof (cases c)
  case (CallElement v)
  with assms have "\<not> truthy (element (parts s))"
    by (auto simp: CSSSelector_element_def split: if_splits)
  with assms CallElement show ?thesis
    by (cases k) (auto simp: CSSSelector_element_def checkOrder_def truthy_text_Element split: if_splits dest: truthy_text_Element)
next
  case (CallId v)
  with assms have "\<not> truthy (id' (parts s))" "v \<noteq> []"
    by (auto simp: CSSSelector_id_def split: if_splits)
  with assms CallId show ?thesis
    by (cases k) (auto simp: CSSSelector_id_def checkOrder_def split: if_splits dest: truthy_text_Id)
next
  case (CallClass v)
  with assms show ?thesis
    by (cases k) (auto simp: CSSSelector_class_def checkOrder_def split: if_splits)
next
  case (CallAttr v)
  with assms show ?thesis
    by (cases k) (auto simp: CSSSelector_attr_def checkOrder_def split: if_splits)
next
  case (CallPseudoClass v)
  with assms show ?thesis
    by (cases k) (auto simp: CSSSelector_pseudoClass_def checkOrder_def split: if_splits)
next
  case (CallPseudoElement v)
  with assms show ?thesis
    by (cases k) (auto simp: CSSSelector_pseudoElement_def checkOrder_def split: if_splits)
qed

lemma fragments_of_Nil: "fragments_of k [] = []"
  by (simp add: fragments_of_def)

lemma fragments_of_Cons:
  "fragments_of k (c # cs) = (if category c = k then fragment c else []) @ fragments_of k cs"
  by (simp add: fragments_of_def)

lemma run_text:
  "fst (run cs s) = Inr () \<Longrightarrow> CallId [] \<notin> set cs \<Longrightarrow>
     text_of k (snd (run cs s)) = text_of k s @ fragments_of k cs"
proof (induction cs arbitrary: s)
  case Nil
  then show ?case by (simp add: fragments_of_Nil)
next
  case (Cons c cs)
  obtain r s1 where inv: "invoke c s = (r, s1)" by (cases "invoke c s")
  with Cons.prems have ok: "fst (invoke c s) = Inr ()" and rest: "fst (run cs s1) = Inr ()"
    and run_eq: "run (c # cs) s = run cs s1"
    by (auto split: sum.splits)
  from Cons.prems have "c \<noteq> CallId []" and "CallId [] \<notin> set cs" by auto
  from invoke_text [OF ok \<open>c \<noteq> CallId []\<close>, of k] inv
  have "text_of k s1 = text_of k s @ (if category c = k then fragment c else [])" by simp
  moreover from Cons.IH [OF rest \<open>CallId [] \<notin> set cs\<close>]
  have "text_of k (snd (run cs s1)) = text_of k s1 @ fragments_of k cs" .
  ultimately show ?case
    unfolding run_eq fragments_of_Cons by simp
qed

lemma text_of_new: "text_of k new_CSSSelector = []"
  by (cases k) (simp_all add: new_CSSSelector_def)

lemma run_new_render:
  assumes "fst (run cs new_CSSSelector) = Inr ()" and "CallId [] \<notin> set cs"
  shows "fst (stringify (snd (run cs new_CSSSelector))) = render_spec cs"
  by (simp only: stringify_text render_spec_unfold run_text [OF assms] text_of_new append_Nil)

lemma stringify_combine:
  "fst (stringify (cssSelectorBuilder_combine l k r)) =
     fst (stringify l) @ '' '' @ k @ '' '' @ fst (stringify r)"
  by (simp add: cssSelectorBuilder_combine_def Let_def new_CSSSelector_def stringify_text)

lemma combine_parts:
  "cssSelectorBuilder_combine l k r =
     \<lparr> parts = \<lparr> element = Some (fst (stringify l) @ '' '' @ k @ '' '' @ fst (stringify r)),
                 id' = None, classes = [], attributes = [], pseudoClasses = [],
                 pseudoElements = [] \<rparr>,
       order = [] \<rparr>"
  by (simp add: cssSelectorBuilder_combine_def Let_def new_CSSSelector_def)

lemma text_of_combine:
  "text_of k (cssSelectorBuilder_combine l j r) =
     (if k = Key_element then fst (stringify (cssSelectorBuilder_combine l j r)) else [])"
  by (cases k) (simp_all add: stringify_text, simp_all add: combine_parts)

lemma run_combine_render:
  assumes "fst (run cs (cssSelectorBuilder_combine l j r)) = Inr ()" and "CallId [] \<notin> set cs"
  shows "fst (stringify (snd (run cs (cssSelectorBuilder_combine l j r)))) =
           fst (stringify (cssSelectorBuilder_combine l j r)) @ render_spec cs"
proof -
  show ?thesis
  by (simp only: stringify_text [of "snd (run cs (cssSelectorBuilder_combine l j r))"]
        render_spec_unfold run_text [OF assms] text_of_combine)
     (simp add: stringify_text)
qed

lemma invoke_combine_ok:
  "category c \<noteq> Key_element \<Longrightarrow> fst (invoke c (cssSelectorBuilder_combine l j r)) = Inr ()"
  by (cases c) (simp_all add: combine_parts method_defs checkOrder_def)

lemma stringify_iterate: "((\<lambda>t. snd (stringify t)) ^^ n) s = s"
  by (induction n) (simp_all add: stringify_state)

subsection \<open>The order check\<close>

lemma order_last_index: "xs \<noteq> [] \<Longrightarrow> xs ! (length xs - 1) = last xs"
  by (simp add: last_conv_nth)

lemma checkOrder_last:
  "checkOrder p s =
     (if order s \<noteq> [] \<and> orderMap p < orderMap (last (order s))
      then (Inl OrderError, s) else (Inr (), s\<lparr>order := order s @ [p]\<rparr>))"
  by (cases "order s = []") (simp_all add: checkOrder_def last_conv_nth)


lemma invoke_OrderError_iff:
  assumes "order s \<noteq> []"
  shows "(fst (invoke c s) = Inl OrderError) =
         (fst (invoke c s) \<noteq> Inl DuplicateFragmentError \<and>
          orderMap (category c) < orderMap (last (order s)))"
  using assms by (cases c) (auto simp: method_defs checkOrder_last)

lemma invoke_no_duplicate:
  "category c \<in> {Key_classes, Key_attributes, Key_pseudoClasses} \<Longrightarrow>
     fst (invoke c s) \<noteq> Inl DuplicateFragmentError"
  by (cases c) (auto simp: method_defs checkOrder_last)

lemma invoke_keeps_last_rank:
  "order s \<noteq> [] \<and> n \<le> orderMap (last (order s)) \<Longrightarrow>
   order (snd (invoke c s)) \<noteq> [] \<and> n \<le> orderMap (last (order (snd (invoke c s))))"
  by (cases c) (auto simp: method_defs checkOrder_last)

lemma attempts_keep_last_rank:
  "order s \<noteq> [] \<and> n \<le> orderMap (last (order s)) \<Longrightarrow>
   order (attempts cs s) \<noteq> [] \<and> n \<le> orderMap (last (order (attempts cs s)))"
proof (induction cs arbitrary: s)
  case Nil
  then show ?case by simp
next
  case (Cons c cs)
  from invoke_keeps_last_rank [OF Cons.prems] show ?case
    by (simp add: Cons.IH)
qed

lemma class_after_pseudoClass:
  assumes "fst (CSSSelector_pseudoClass v s) = Inr ()"
  shows "fst (CSSSelector_class w (attempts cs (snd (CSSSelector_pseudoClass v s)))) = Inl OrderError"
proof -
  let ?s1 = "snd (CSSSelector_pseudoClass v s)"
  from assms have "order ?s1 \<noteq> [] \<and> 5 \<le> orderMap (last (order ?s1))"
    by (auto simp: CSSSelector_pseudoClass_def checkOrder_last split: if_splits)
  then have "order (attempts cs ?s1) \<noteq> [] \<and> 5 \<le> orderMap (last (order (attempts cs ?s1)))"
    by (rule attempts_keep_last_rank)
  then show ?thesis
    by (simp add: CSSSelector_class_def checkOrder_last)
qed

lemma class_after_class:
  assumes "fst (CSSSelector_class v s) = Inr ()"
  shows "fst (CSSSelector_class w (snd (CSSSelector_class v s))) = Inr ()"
  using assms by (auto simp: CSSSelector_class_def checkOrder_last split: if_splits)

subsection \<open>The duplicate checks\<close>

lemma invoke_keeps_truthy_id:
  "truthy (id' (parts s)) \<Longrightarrow> truthy (id' (parts (snd (invoke c s))))"
  by (cases c) (auto simp: method_defs checkOrder_last)

lemma invoke_keeps_truthy_element:
  "truthy (element (parts s)) \<Longrightarrow> truthy (element (parts (snd (invoke c s))))"
  by (cases c) (auto simp: method_defs checkOrder_last)

lemma invoke_keeps_pseudoElements:
  "pseudoElements (parts s) \<noteq> [] \<Longrightarrow> pseudoElements (parts (snd (invoke c s))) \<noteq> []"
  by (cases c) (auto simp: method_defs checkOrder_last)

lemma attempts_keep_truthy_id:
  "truthy (id' (parts s)) \<Longrightarrow> truthy (id' (parts (attempts cs s)))"
  by (induction cs arbitrary: s) (simp_all add: invoke_keeps_truthy_id)

lemma attempts_keep_truthy_element:
  "truthy (element (parts s)) \<Longrightarrow> truthy (element (parts (attempts cs s)))"
  by (induction cs arbitrary: s) (simp_all add: invoke_keeps_truthy_element)

lemma attempts_keep_pseudoElements:
  "pseudoElements (parts s) \<noteq> [] \<Longrightarrow> pseudoElements (parts (attempts cs s)) \<noteq> []"
  by (induction cs arbitrary: s) (simp_all add: invoke_keeps_pseudoElements)

lemma second_id_is_duplicate:
  assumes "fst (CSSSelector_id v s) = Inr ()" and "v \<noteq> []"
  shows "fst (CSSSelector_id w (attempts cs (snd (CSSSelector_id v s)))) = Inl DuplicateFragmentError"
proof -
  from assms have "truthy (id' (parts (snd (CSSSelector_id v s))))"
    by (auto simp: CSSSelector_id_def checkOrder_last split: if_splits)
  then have "truthy (id' (parts (attempts cs (snd (CSSSelector_id v s)))))"
    by (rule attempts_keep_truthy_id)
  then show ?thesis by (simp add: CSSSelector_id_def)
qed

lemma second_element_is_duplicate:
  assumes "fst (CSSSelector_element v s) = Inr ()" and "v \<noteq> []"
  shows "fst (CSSSelector_element w (attempts cs (snd (CSSSelector_element v s))))
           = Inl DuplicateFragmentError"
proof -
  from assms have "truthy (element (parts (snd (CSSSelector_element v s))))"
    by (auto simp: CSSSelector_element_def checkOrder_last split: if_splits)
  then have "truthy (element (parts (attempts cs (snd (CSSSelector_element v s)))))"
    by (rule attempts_keep_truthy_element)
  then show ?thesis by (simp add: CSSSelector_element_def)
qed

lemma second_pseudoElement_is_duplicate:
  assumes "fst (CSSSelector_pseudoElement v s) = Inr ()"
  shows "fst (CSSSelector_pseudoElement w (attempts cs (snd (CSSSelector_pseudoElement v s))))
           = Inl DuplicateFragmentError"
proof -
  from assms have "pseudoElements (parts (snd (CSSSelector_pseudoElement v s))) \<noteq> []"
    by (auto simp: CSSSelector_pseudoElement_def checkOrder_last split: if_splits)
  then have "pseudoElements (parts (attempts cs (snd (CSSSelector_pseudoElement v s)))) \<noteq> []"
    by (rule attempts_keep_pseudoElements)
  then show ?thesis by (simp add: CSSSelector_pseudoElement_def)
qed

lemma element_duplicate_iff:
  "(fst (CSSSelector_element v s) = Inl DuplicateFragmentError) = truthy (element (parts s))"
  by (auto simp: CSSSelector_element_def checkOrder_last)

lemma id_duplicate_iff:
  "(fst (CSSSelector_id v s) = Inl DuplicateFragmentError) = truthy (id' (parts s))"
  by (auto simp: CSSSelector_id_def checkOrder_last)

lemma element_after_empty_element:
  assumes "fst (CSSSelector_element [] s) = Inr ()"
  shows "fst (CSSSelector_element v (snd (CSSSelector_element [] s))) = Inr () \<and>
         element (parts (snd (CSSSelector_element v (snd (CSSSelector_element [] s))))) = Some v"
  using assms by (auto simp: CSSSelector_element_def checkOrder_last split: if_splits)

lemma id_after_empty_id:
  assumes "fst (CSSSelector_id [] s) = Inr ()"
  shows "fst (CSSSelector_id v (snd (CSSSelector_id [] s))) = Inr () \<and>
         id' (parts (snd (CSSSelector_id v (snd (CSSSelector_id [] s))))) = Some v"
  using assms by (auto simp: CSSSelector_id_def checkOrder_last split: if_splits)

lemma stringify_falsy_element:
  "\<not> truthy (element (parts s)) \<Longrightarrow>
     fst (stringify s) = fst (stringify (s\<lparr>parts := (parts s)\<lparr>element := None\<rparr>\<rparr>))"
  by (cases "element (parts s)") (simp_all add: stringify_text)

lemma stringify_falsy_id:
  "\<not> truthy (id' (parts s)) \<Longrightarrow>
     fst (stringify s) = fst (stringify (s\<lparr>parts := (parts s)\<lparr>id' := None\<rparr>\<rparr>))"
  by (cases "id' (parts s)") (simp_all add: stringify_text)

subsection \<open>Rendering of accepted chains\<close>

text \<open>
  Where no id value is the empty string, the rendering of an accepted chain is the
  concatenation of its fragments, category by category: on a fresh builder, and after
  the combined string on a selector returned by \<^verbatim>\<open>combine\<close>, whose history is
  empty and which accepts every non-element append.
\<close>

lemma render_accepted_chain:
  "(fst (run cs new_CSSSelector) = Inr () \<and> CallId [] \<notin> set cs \<longrightarrow>
      fst (stringify (snd (run cs new_CSSSelector))) = render_spec cs) \<and>
   fst (stringify new_CSSSelector) = [] \<and>
   fst (cssSelectorBuilder_element ''a'') = Inr () \<and>
   fst (run [CallId ''x'', CallClass ''c1'', CallClass ''c2'', CallAttr ''href'',
             CallPseudoClass ''hover'', CallPseudoElement ''before'']
            (snd (cssSelectorBuilder_element ''a''))) = Inr () \<and>
   fst (stringify (snd (run [CallId ''x'', CallClass ''c1'', CallClass ''c2'', CallAttr ''href'',
             CallPseudoClass ''hover'', CallPseudoElement ''before'']
            (snd (cssSelectorBuilder_element ''a''))))) = ''a#x.c1.c2[href]:hover::before''"
proof (intro conjI impI)
  assume "fst (run cs new_CSSSelector) = Inr () \<and> CallId [] \<notin> set cs"
  then show "fst (stringify (snd (run cs new_CSSSelector))) = render_spec cs"
    by (simp add: run_new_render)
qed (simp_all add: eval_defs)

lemma render_accepted_chain_example:
  "fst (run [CallElement ''div'', CallId ''main'', CallClass ''a'', CallClass ''b'']
            new_CSSSelector) = Inr () \<and>
   CallId [] \<notin> set [CallElement ''div'', CallId ''main'', CallClass ''a'', CallClass ''b''] \<and>
   fst (stringify (snd (run [CallElement ''div'', CallId ''main'', CallClass ''a'', CallClass ''b'']
            new_CSSSelector))) = ''div#main.a.b''"
proof -
  have h: "fst (run [CallElement ''div'', CallId ''main'', CallClass ''a'', CallClass ''b'']
            new_CSSSelector) = Inr () \<and>
   CallId [] \<notin> set [CallElement ''div'', CallId ''main'', CallClass ''a'', CallClass ''b'']"
    by (simp add: eval_defs)
  have r: "render_spec [CallElement ''div'', CallId ''main'', CallClass ''a'', CallClass ''b'']
            = ''div#main.a.b''"
    by (simp add: eval_defs)
  from render_accepted_chain
    [of "[CallElement ''div'', CallId ''main'', CallClass ''a'', CallClass ''b'']"] h r
  show ?thesis by simp
qed

lemma combined_accepts_later_categories:
  "order (cssSelectorBuilder_combine l j r) = [] \<and>
   (category c \<noteq> Key_element \<longrightarrow>
      fst (invoke c (cssSelectorBuilder_combine l j r)) = Inr ()) \<and>
   (fst (run cs (cssSelectorBuilder_combine l j r)) = Inr () \<and> CallId [] \<notin> set cs \<longrightarrow>
      fst (stringify (snd (run cs (cssSelectorBuilder_combine l j r)))) =
        fst (stringify (cssSelectorBuilder_combine l j r)) @ render_spec cs)"
  using invoke_combine_ok [of c l j r] run_combine_render [of cs l j r]
  by (simp add: combine_parts)

lemma combined_accepts_later_categories_example:
  "category (CallPseudoElement ''after'') \<noteq> Key_element \<and>
   fst (run [CallId ''x'', CallClass ''c'']
          (cssSelectorBuilder_combine (snd (cssSelectorBuilder_class ''a'')) ''>''
             (snd (cssSelectorBuilder_id ''b'')))) = Inr () \<and>
   CallId [] \<notin> set [CallId ''x'', CallClass ''c''] \<and>
   fst (invoke (CallPseudoElement ''after'')
          (cssSelectorBuilder_combine (snd (cssSelectorBuilder_class ''a'')) ''>''
             (snd (cssSelectorBuilder_id ''b'')))) = Inr () \<and>
   fst (stringify (snd (run [CallId ''x'', CallClass ''c'']
          (cssSelectorBuilder_combine (snd (cssSelectorBuilder_class ''a'')) ''>''
             (snd (cssSelectorBuilder_id ''b'')))))) = ''.a > #b#x.c''"
proof -
  have h1: "category (CallPseudoElement ''after'') \<noteq> Key_element" by simp
  have h2: "fst (run [CallId ''x'', CallClass ''c'']
          (cssSelectorBuilder_combine (snd (cssSelectorBuilder_class ''a'')) ''>''
             (snd (cssSelectorBuilder_id ''b'')))) = Inr () \<and>
   CallId [] \<notin> set [CallId ''x'', CallClass ''c'']"
    by (simp add: eval_defs)
  have r: "fst (stringify (cssSelectorBuilder_combine (snd (cssSelectorBuilder_class ''a'')) ''>''
             (snd (cssSelectorBuilder_id ''b'')))) @ render_spec [CallId ''x'', CallClass ''c'']
           = ''.a > #b#x.c''"
    by (simp add: eval_defs)
  from combined_accepts_later_categories
    [of "snd (cssSelectorBuilder_class ''a'')" "''>''" "snd (cssSelectorBuilder_id ''b'')"
        "CallPseudoElement ''after''" "[CallId ''x'', CallClass ''c'']"] h1 h2 r
  show ?thesis by simp
qed

section \<open>The claims\<close>

text \<open>
  C1 says that for every chain of appends that a builder accepts, \<^verbatim>\<open>stringify\<close>
  returns the fragments of the chain concatenated category by category, with
  \<^verbatim>\<open>'#' + id\<close> for the id. The code guards the id fragment with the truthiness of
  the slot, so the accepted chain \<^verbatim>\<open>id('')\<close> renders as the empty string where the
  rule gives \<^verbatim>\<open>'#'\<close>, and the accepted chain \<^verbatim>\<open>id('').class('c')\<close> renders as
  \<^verbatim>\<open>.c\<close> where the rule gives \<^verbatim>\<open>#.c\<close>. The unguarded categories keep their
  punctuation for an empty value: \<^verbatim>\<open>class('')\<close> renders as \<^verbatim>\<open>.\<close> and
  \<^verbatim>\<open>pseudoElement('')\<close> as \<^verbatim>\<open>::\<close>.
\<close>

theorem empty_id_renders_nothing:
  "fst (run [CallId []] new_CSSSelector) = Inr () \<and>
   fst (stringify (snd (run [CallId []] new_CSSSelector))) = [] \<and>
   render_spec [CallId []] = ''#'' \<and>
   fst (run [CallId [], CallClass ''c''] new_CSSSelector) = Inr () \<and>
   fst (stringify (snd (run [CallId [], CallClass ''c''] new_CSSSelector))) = ''.c'' \<and>
   render_spec [CallId [], CallClass ''c''] = ''#.c'' \<and>
   fst (stringify (snd (cssSelectorBuilder_class []))) = ''.'' \<and>
   fst (stringify (snd (cssSelectorBuilder_pseudoElement []))) = ''::''"
  by (simp add: eval_defs)

text \<open>
  C2 says that a second \<^verbatim>\<open>id\<close> call on an instance raises
  \<open>DuplicateFragmentError\<close> whatever the values, and likewise a second
  \<^verbatim>\<open>element\<close> call. The code tests the truthiness of the slot, so after
  \<^verbatim>\<open>id('')\<close> the call \<^verbatim>\<open>id('x')\<close> returns normally and overwrites the slot, and
  after \<^verbatim>\<open>element('')\<close> so does \<^verbatim>\<open>element('div')\<close>; the history then holds the
  category twice. (The lemmas on the duplicate checks above show that the second call
  is rejected whenever the first value is not empty, and always for
  \<^verbatim>\<open>pseudoElement\<close>, whose check counts the stored entries.)
\<close>

theorem second_id_after_empty_id:
  "fst (cssSelectorBuilder_id []) = Inr () \<and>
   CSSSelector_id ''x'' (snd (cssSelectorBuilder_id [])) =
     (Inr (), \<lparr> parts = \<lparr> element = None, id' = Some ''x'', classes = [], attributes = [],
                           pseudoClasses = [], pseudoElements = [] \<rparr>,
               order = [Key_id, Key_id] \<rparr>) \<and>
   fst (cssSelectorBuilder_element []) = Inr () \<and>
   CSSSelector_element ''div'' (snd (cssSelectorBuilder_element [])) =
     (Inr (), \<lparr> parts = \<lparr> element = Some ''div'', id' = None, classes = [], attributes = [],
                           pseudoClasses = [], pseudoElements = [] \<rparr>,
               order = [Key_element, Key_element] \<rparr>)"
  by (simp add: eval_defs)

text \<open>
  C3, as stated: on a builder with an accepted append, an append of rank r raises
  \<open>OrderError\<close> if and only if r is below the rank of the most recent accepted
  append. After \<^verbatim>\<open>element('a').id('x')\<close> the call \<^verbatim>\<open>element('b')\<close> has rank 1
  below rank 2, and it raises \<open>DuplicateFragmentError\<close>, not \<open>OrderError\<close>: the
  duplicate check runs first.
\<close>

theorem order_error_counterexample:
  "fst (run [CallElement ''a'', CallId ''x''] new_CSSSelector) = Inr () \<and>
   order (snd (run [CallElement ''a'', CallId ''x''] new_CSSSelector)) \<noteq> [] \<and>
   orderMap Key_element <
     orderMap (last (order (snd (run [CallElement ''a'', CallId ''x''] new_CSSSelector)))) \<and>
   fst (CSSSelector_element ''b'' (snd (run [CallElement ''a'', CallId ''x''] new_CSSSelector)))
     \<noteq> Inl OrderError"
  by (simp add: eval_defs)

text \<open>
  C3, amended: on a builder with an accepted append, an append raises
  \<open>OrderError\<close> if and only if it is not rejected by its duplicate check and its
  rank is strictly below the rank of the most recent accepted append; so equal ranks
  never raise \<open>OrderError\<close>. The appends \<^verbatim>\<open>class\<close>, \<^verbatim>\<open>attr\<close> and
  \<^verbatim>\<open>pseudoClass\<close> have no duplicate check. A \<^verbatim>\<open>class\<close> append after an accepted
  \<^verbatim>\<open>pseudoClass\<close> always raises \<open>OrderError\<close>, whatever was attempted in between,
  and a \<^verbatim>\<open>class\<close> append right after an accepted \<^verbatim>\<open>class\<close> never raises.
\<close>

theorem order_error_iff:
  "(order s \<noteq> [] \<longrightarrow>
      (fst (invoke c s) = Inl OrderError) =
      (fst (invoke c s) \<noteq> Inl DuplicateFragmentError \<and>
       orderMap (category c) < orderMap (last (order s)))) \<and>
   (category c \<in> {Key_classes, Key_attributes, Key_pseudoClasses} \<longrightarrow>
      fst (invoke c s) \<noteq> Inl DuplicateFragmentError) \<and>
   (fst (CSSSelector_pseudoClass v s) = Inr () \<longrightarrow>
      fst (CSSSelector_class w (attempts cs (snd (CSSSelector_pseudoClass v s)))) = Inl OrderError) \<and>
   (fst (CSSSelector_class v s) = Inr () \<longrightarrow>
      fst (CSSSelector_class w (snd (CSSSelector_class v s))) = Inr ())"
  using invoke_OrderError_iff [of s c] invoke_no_duplicate [of c s]
    class_after_pseudoClass [of v s w cs] class_after_class [of v s w]
  by blast

text \<open>
  The amended C3 on the builders \<^verbatim>\<open>attr('href')\<close> and \<^verbatim>\<open>class('b')\<close>.
\<close>

theorem order_error_iff_witness:
  "order (snd (cssSelectorBuilder_attr ''href'')) \<noteq> [] \<and>
   category (CallClass ''c'') \<in> {Key_classes, Key_attributes, Key_pseudoClasses} \<and>
   fst (CSSSelector_pseudoClass ''hover'' (snd (cssSelectorBuilder_attr ''href''))) = Inr () \<and>
   fst (CSSSelector_class ''c'' (snd (cssSelectorBuilder_class ''b''))) = Inr () \<and>
   fst (invoke (CallClass ''c'') (snd (cssSelectorBuilder_attr ''href''))) = Inl OrderError \<and>
   orderMap (category (CallClass ''c'')) <
     orderMap (last (order (snd (cssSelectorBuilder_attr ''href'')))) \<and>
   fst (CSSSelector_class ''d''
         (attempts [CallPseudoElement ''before'', CallId ''x'']
           (snd (CSSSelector_pseudoClass ''hover'' (snd (cssSelectorBuilder_attr ''href''))))))
     = Inl OrderError \<and>
   fst (CSSSelector_class ''d''
         (snd (CSSSelector_class ''c'' (snd (cssSelectorBuilder_class ''b''))))) = Inr ()"
proof -
  have h1: "order (snd (cssSelectorBuilder_attr ''href'')) \<noteq> []"
    by (simp add: eval_defs)
  have h2: "category (CallClass ''c'') \<in> {Key_classes, Key_attributes, Key_pseudoClasses}"
    by simp
  have h3: "fst (CSSSelector_pseudoClass ''hover'' (snd (cssSelectorBuilder_attr ''href''))) = Inr ()"
    by (simp add: eval_defs)
  have h4: "fst (CSSSelector_class ''c'' (snd (cssSelectorBuilder_class ''b''))) = Inr ()"
    by (simp add: eval_defs)
  have h5: "fst (invoke (CallClass ''c'') (snd (cssSelectorBuilder_attr ''href''))) = Inl OrderError"
    by (simp add: eval_defs)
  from order_error_iff [of "snd (cssSelectorBuilder_attr ''href'')" "CallClass ''c''"
      "''hover''" "''d''" "[CallPseudoElement ''before'', CallId ''x'']"] h1 h2 h3 h5
  have a: "orderMap (category (CallClass ''c'')) <
     orderMap (last (order (snd (cssSelectorBuilder_attr ''href'')))) \<and>
   fst (CSSSelector_class ''d''
         (attempts [CallPseudoElement ''before'', CallId ''x'']
           (snd (CSSSelector_pseudoClass ''hover'' (snd (cssSelectorBuilder_attr ''href''))))))
     = Inl OrderError"
    by blast
  from order_error_iff [of "snd (cssSelectorBuilder_class ''b'')" "CallClass ''c''"
      "''c''" "''d''" "[]"] h4
  have b: "fst (CSSSelector_class ''d''
         (snd (CSSSelector_class ''c'' (snd (cssSelectorBuilder_class ''b''))))) = Inr ()"
    by blast
  from h1 h2 h3 h4 h5 a b show ?thesis by blast
qed

text \<open>
  C4. Whenever an append raises, the instance is exactly as it was before the call:
  parts and history are untouched. The same holds for \<^verbatim>\<open>checkOrder\<close> alone.
\<close>

theorem rejected_append_keeps_state:
  "(fst (invoke c s) = Inl e \<longrightarrow> snd (invoke c s) = s) \<and>
   (fst (checkOrder p s) = Inl e \<longrightarrow> snd (checkOrder p s) = s)"
  using invoke_error_state [of c s e] checkOrder_error_state [of p s e] by blast

text \<open>
  C4 at \<^verbatim>\<open>pseudoClass('hover').class('c')\<close>, which raises \<open>OrderError\<close>.
\<close>

theorem rejected_append_keeps_state_witness:
  "fst (invoke (CallClass ''c'') (snd (cssSelectorBuilder_pseudoClass ''hover''))) = Inl OrderError \<and>
   fst (checkOrder Key_classes (snd (cssSelectorBuilder_pseudoClass ''hover''))) = Inl OrderError \<and>
   snd (invoke (CallClass ''c'') (snd (cssSelectorBuilder_pseudoClass ''hover'')))
     = snd (cssSelectorBuilder_pseudoClass ''hover'') \<and>
   snd (checkOrder Key_classes (snd (cssSelectorBuilder_pseudoClass ''hover'')))
     = snd (cssSelectorBuilder_pseudoClass ''hover'')"
proof -
  have h1: "fst (invoke (CallClass ''c'') (snd (cssSelectorBuilder_pseudoClass ''hover'')))
              = Inl OrderError"
    by (simp add: eval_defs)
  have h2: "fst (checkOrder Key_classes (snd (cssSelectorBuilder_pseudoClass ''hover'')))
              = Inl OrderError"
    by (simp add: eval_defs)
  from rejected_append_keeps_state [of "CallClass ''c''"
      "snd (cssSelectorBuilder_pseudoClass ''hover'')" OrderError Key_classes] h1 h2
  show ?thesis by blast
qed

text \<open>
  C5. For all selectors and every combinator string, the selector that
  \<^verbatim>\<open>combine\<close> returns renders as the left rendering, a space, the combinator
  verbatim, a space and the right rendering; \<^verbatim>\<open>combine(class('a'), '>', id('b'))\<close>
  renders as \<^verbatim>\<open>.a > #b\<close>.
\<close>

theorem combine_renders_joined:
  "fst (stringify (cssSelectorBuilder_combine l k r)) =
     fst (stringify l) @ '' '' @ k @ '' '' @ fst (stringify r) \<and>
   fst (cssSelectorBuilder_class ''a'') = Inr () \<and>
   fst (cssSelectorBuilder_id ''b'') = Inr () \<and>
   fst (stringify (cssSelectorBuilder_combine (snd (cssSelectorBuilder_class ''a'')) ''>''
                     (snd (cssSelectorBuilder_id ''b'')))) = ''.a > #b''"
proof (intro conjI)
  show "fst (stringify (cssSelectorBuilder_combine l k r)) =
     fst (stringify l) @ '' '' @ k @ '' '' @ fst (stringify r)"
    by (rule stringify_combine)
qed (simp_all add: eval_defs)

text \<open>
  C6, as stated: a combined selector accepts a further \<^verbatim>\<open>element\<close> append, its
  history holding category 1. On \<^verbatim>\<open>combine(class('a'), '>', id('b'))\<close> the call
  \<^verbatim>\<open>element('div')\<close> raises \<open>DuplicateFragmentError\<close>, and the history is not the
  single category 1.
\<close>

theorem combined_element_counterexample:
  "fst (CSSSelector_element ''div''
         (cssSelectorBuilder_combine (snd (cssSelectorBuilder_class ''a'')) ''>''
            (snd (cssSelectorBuilder_id ''b'')))) = Inl DuplicateFragmentError \<and>
   order (cssSelectorBuilder_combine (snd (cssSelectorBuilder_class ''a'')) ''>''
            (snd (cssSelectorBuilder_id ''b''))) \<noteq> [Key_element]"
  by (simp add: eval_defs)

text \<open>
  C6, amended: a selector produced by \<^verbatim>\<open>combine\<close> rejects every further
  \<^verbatim>\<open>element\<close> append with \<open>DuplicateFragmentError\<close> and is left unchanged by it,
  because the combined string, which is never empty, sits in the element slot of the
  new instance; the history of that instance is empty.
\<close>

theorem combined_rejects_element:
  "CSSSelector_element v (cssSelectorBuilder_combine l k r) =
     (Inl DuplicateFragmentError, cssSelectorBuilder_combine l k r) \<and>
   truthy (element (parts (cssSelectorBuilder_combine l k r))) \<and>
   order (cssSelectorBuilder_combine l k r) = []"
  by (simp add: combine_parts CSSSelector_element_def)

text \<open>
  C7. For every value, each of the six factory entry points returns normally: on a
  freshly constructed instance neither the duplicate checks nor the order check can
  fire.
\<close>

theorem factory_never_fails:
  "fst (cssSelectorBuilder_element v) = Inr () \<and>
   fst (cssSelectorBuilder_id v) = Inr () \<and>
   fst (cssSelectorBuilder_class v) = Inr () \<and>
   fst (cssSelectorBuilder_attr v) = Inr () \<and>
   fst (cssSelectorBuilder_pseudoClass v) = Inr () \<and>
   fst (cssSelectorBuilder_pseudoElement v) = Inr ()"
  by (simp add: cssSelectorBuilder_element_def cssSelectorBuilder_id_def
      cssSelectorBuilder_class_def cssSelectorBuilder_attr_def
      cssSelectorBuilder_pseudoClass_def cssSelectorBuilder_pseudoElement_def
      CSSSelector_element_def CSSSelector_id_def CSSSelector_class_def
      CSSSelector_attr_def CSSSelector_pseudoClass_def CSSSelector_pseudoElement_def
      checkOrder_new)
     (simp add: new_CSSSelector_def)

text \<open>
  C8. \<^verbatim>\<open>stringify\<close> leaves the instance as it was, a second call returns the same
  string, and so does a call after any number of calls.
\<close>

theorem stringify_pure:
  "snd (stringify s) = s \<and>
   fst (stringify (snd (stringify s))) = fst (stringify s) \<and>
   ((\<lambda>t. snd (stringify t)) ^^ n) s = s \<and>
   fst (stringify (((\<lambda>t. snd (stringify t)) ^^ n) s)) = fst (stringify s)"
  unfolding stringify_iterate by (simp add: stringify_state)

text \<open>
  C9 says that on a selector returned by \<^verbatim>\<open>combine\<close> every non-element append
  succeeds for every value and its fragment is rendered after the combined string. On
  \<^verbatim>\<open>combine(class('a'), '>', id('b'))\<close>, whose history is empty, the call
  \<^verbatim>\<open>id('')\<close> succeeds, but the rendering stays \<^verbatim>\<open>.a > #b\<close>: the fragment
  \<^verbatim>\<open>'#'\<close> of the empty id is dropped by the truthiness guard of
  \<^verbatim>\<open>stringify\<close>, where the claim gives \<^verbatim>\<open>.a > #b#\<close>.
\<close>

theorem combined_empty_id_renders_nothing:
  "order (cssSelectorBuilder_combine (snd (cssSelectorBuilder_class ''a'')) ''>''
            (snd (cssSelectorBuilder_id ''b''))) = [] \<and>
   fst (CSSSelector_id []
          (cssSelectorBuilder_combine (snd (cssSelectorBuilder_class ''a'')) ''>''
             (snd (cssSelectorBuilder_id ''b'')))) = Inr () \<and>
   fst (stringify (snd (CSSSelector_id []
          (cssSelectorBuilder_combine (snd (cssSelectorBuilder_class ''a'')) ''>''
             (snd (cssSelectorBuilder_id ''b'')))))) = ''.a > #b'' \<and>
   fst (stringify (cssSelectorBuilder_combine (snd (cssSelectorBuilder_class ''a'')) ''>''
             (snd (cssSelectorBuilder_id ''b'')))) @ fragment (CallId []) = ''.a > #b#''"
  by (simp add: eval_defs)

text \<open>
  C10. The duplicate checks of \<^verbatim>\<open>element\<close> and \<^verbatim>\<open>id\<close> fire exactly when the
  stored value is truthy. After an accepted \<^verbatim>\<open>element('')\<close> the next
  \<^verbatim>\<open>element(v)\<close> returns normally and overwrites the slot, and likewise for
  \<^verbatim>\<open>id\<close>. \<^verbatim>\<open>stringify\<close> renders a falsy element or id slot as it renders an
  unset one: the fragment is omitted.
\<close>

theorem truthiness_checks:
  "(fst (CSSSelector_element v s) = Inl DuplicateFragmentError) = truthy (element (parts s)) \<and>
   (fst (CSSSelector_id v s) = Inl DuplicateFragmentError) = truthy (id' (parts s)) \<and>
   (fst (CSSSelector_element [] s) = Inr () \<longrightarrow>
      fst (CSSSelector_element v (snd (CSSSelector_element [] s))) = Inr () \<and>
      element (parts (snd (CSSSelector_element v (snd (CSSSelector_element [] s))))) = Some v) \<and>
   (fst (CSSSelector_id [] s) = Inr () \<longrightarrow>
      fst (CSSSelector_id v (snd (CSSSelector_id [] s))) = Inr () \<and>
      id' (parts (snd (CSSSelector_id v (snd (CSSSelector_id [] s))))) = Some v) \<and>
   (\<not> truthy (element (parts s)) \<longrightarrow>
      fst (stringify s) = fst (stringify (s\<lparr>parts := (parts s)\<lparr>element := None\<rparr>\<rparr>))) \<and>
   (\<not> truthy (id' (parts s)) \<longrightarrow>
      fst (stringify s) = fst (stringify (s\<lparr>parts := (parts s)\<lparr>id' := None\<rparr>\<rparr>)))"
  using element_duplicate_iff [of v s] id_duplicate_iff [of v s]
    element_after_empty_element [of s v] id_after_empty_id [of s v]
    stringify_falsy_element [of s] stringify_falsy_id [of s]
  by blast

text \<open>
  C10 on a fresh instance: \<^verbatim>\<open>element('').element('div')\<close> and
  \<^verbatim>\<open>element('').id('').id('x')\<close> are accepted, and \<^verbatim>\<open>id('')\<close> renders as the
  empty string.
\<close>

theorem truthiness_checks_witness:
  "fst (CSSSelector_element [] new_CSSSelector) = Inr () \<and>
   fst (CSSSelector_id [] (snd (cssSelectorBuilder_element []))) = Inr () \<and>
   \<not> truthy (element (parts (snd (cssSelectorBuilder_id [])))) \<and>
   \<not> truthy (id' (parts (snd (cssSelectorBuilder_id [])))) \<and>
   fst (CSSSelector_element ''div'' (snd (CSSSelector_element [] new_CSSSelector))) = Inr () \<and>
   element (parts (snd (CSSSelector_element ''div'' (snd (CSSSelector_element [] new_CSSSelector)))))
     = Some ''div'' \<and>
   fst (CSSSelector_id ''x'' (snd (CSSSelector_id [] (snd (cssSelectorBuilder_element [])))))
     = Inr () \<and>
   id' (parts (snd (CSSSelector_id ''x''
         (snd (CSSSelector_id [] (snd (cssSelectorBuilder_element []))))))) = Some ''x'' \<and>
   fst (stringify (snd (cssSelectorBuilder_id []))) = []"
proof -
  have h1: "fst (CSSSelector_element [] new_CSSSelector) = Inr ()"
    by (simp add: eval_defs)
  have h2: "fst (CSSSelector_id [] (snd (cssSelectorBuilder_element []))) = Inr ()"
    by (simp add: eval_defs)
  have h3: "\<not> truthy (element (parts (snd (cssSelectorBuilder_id []))))"
    by (simp add: eval_defs)
  have h4: "\<not> truthy (id' (parts (snd (cssSelectorBuilder_id []))))"
    by (simp add: eval_defs)
  have r: "fst (stringify ((snd (cssSelectorBuilder_id []))
             \<lparr>parts := (parts (snd (cssSelectorBuilder_id [])))\<lparr>id' := None\<rparr>\<rparr>)) = []"
    by (simp add: eval_defs)
  from truthiness_checks [of "''div''" new_CSSSelector] h1
  have a: "fst (CSSSelector_element ''div'' (snd (CSSSelector_element [] new_CSSSelector))) = Inr () \<and>
   element (parts (snd (CSSSelector_element ''div'' (snd (CSSSelector_element [] new_CSSSelector)))))
     = Some ''div''"
    by blast
  from truthiness_checks [of "''x''" "snd (cssSelectorBuilder_element [])"] h2
  have b: "fst (CSSSelector_id ''x'' (snd (CSSSelector_id [] (snd (cssSelectorBuilder_element [])))))
     = Inr () \<and>
   id' (parts (snd (CSSSelector_id ''x''
         (snd (CSSSelector_id [] (snd (cssSelectorBuilder_element []))))))) = Some ''x''"
    by blast
  from truthiness_checks [of "''x''" "snd (cssSelectorBuilder_id [])"] h4
  have "fst (stringify (snd (cssSelectorBuilder_id []))) =
        fst (stringify ((snd (cssSelectorBuilder_id []))
             \<lparr>parts := (parts (snd (cssSelectorBuilder_id [])))\<lparr>id' := None\<rparr>\<rparr>))"
    by blast
  with r have c: "fst (stringify (snd (cssSelectorBuilder_id []))) = []"
    by (simp only:)
  from h1 h2 h3 h4 a b c show ?thesis by blast
qed

end
